theory Spec2Isabelle
  imports Complex_Main
begin

section \<open>JavaScript values used by image-data.ts\<close>

text \<open>
  A JavaScript \<^verbatim>\<open>number\<close> is a finite binary64 value, one of the two infinities,
  or NaN. A finite value is modelled by the real number it denotes. The sign of zero is
  not represented: \<open>Fin 0\<close> stands for both zeros.
\<close>

datatype number = Fin real | PosInf | NegInf | NaN

text \<open>
  Rounding of an exact real result to binary64: round to nearest, ties to even, with
  53 bits of precision, gradual underflow (no exponent below \<open>-1074\<close>) and overflow to
  infinity from \<open>2 ^ 1024\<close> on. For \<open>a > 0\<close>, \<open>floor_log2 a\<close> is the integer \<open>k\<close> with
  \<open>2 ^ k \<le> a < 2 ^ (k + 1)\<close>, computed from the number of bits of an integer, and
  \<open>pow2 e\<close> is \<open>2 ^ e\<close> for an integer \<open>e\<close> of either sign.
\<close>

fun bit_length :: "nat \<Rightarrow> nat" where
  "bit_length n = (if n = 0 then 0 else Suc (bit_length (n div 2)))"

declare bit_length.simps [simp del]

definition floor_log2 :: "real \<Rightarrow> int" where
  "floor_log2 a =
     (if 1 \<le> a then int (bit_length (nat \<lfloor>a\<rfloor>)) - 1
      else - int (bit_length (nat (\<lceil>1 / a\<rceil> - 1))))"

definition pow2 :: "int \<Rightarrow> real" where
  "pow2 e = (if 0 \<le> e then 2 ^ nat e else 1 / 2 ^ nat (- e))"

definition round_half_even :: "real \<Rightarrow> int" where
  "round_half_even x =
     (let n = \<lfloor>x\<rfloor>; r = x - of_int n
      in if r < 1 / 2 then n else if 1 / 2 < r then n + 1
         else if even n then n else n + 1)"

definition binary64 :: "real \<Rightarrow> number" where
  "binary64 x =
     (if x = 0 then Fin 0
      else
        (let a = \<bar>x\<bar>;
             e = max (floor_log2 a - 52) (- 1074);
             r = of_int (round_half_even (a / pow2 e)) * pow2 e
         in if 2 ^ 1024 \<le> r then (if 0 < x then PosInf else NegInf)
            else Fin (if 0 < x then r else - r)))"

text \<open>
  The operator \<^verbatim>\<open>/\<close> on numbers: the exact quotient rounded to binary64, and the
  IEEE results for a zero divisor, the infinities and NaN.
\<close>

fun js_div :: "number \<Rightarrow> number \<Rightarrow> number" where
  "js_div NaN _ = NaN"
| "js_div _ NaN = NaN"
| "js_div (Fin a) (Fin b) =
     (if b = 0 then (if a = 0 then NaN else if 0 < a then PosInf else NegInf)
      else binary64 (a / b))"
| "js_div (Fin a) PosInf = Fin 0"
| "js_div (Fin a) NegInf = Fin 0"
| "js_div PosInf (Fin b) = (if 0 \<le> b then PosInf else NegInf)"
| "js_div NegInf (Fin b) = (if 0 \<le> b then NegInf else PosInf)"
| "js_div PosInf PosInf = NaN"
| "js_div PosInf NegInf = NaN"
| "js_div NegInf PosInf = NaN"
| "js_div NegInf NegInf = NaN"

text \<open>
  \<^verbatim>\<open>Math.round\<close>: the nearest integer, a tie going towards \<open>+\<infinity>\<close>. The result is
  exact: a binary64 value of magnitude \<open>2 ^ 52\<close> or more is an integer already.
\<close>

fun Math_round :: "number \<Rightarrow> number" where
  "Math_round (Fin x) = Fin (of_int \<lfloor>x + 1 / 2\<rfloor>)"
| "Math_round n = n"

text \<open>Strict equality \<^verbatim>\<open>===\<close> on numbers: NaN equals nothing, itself included.\<close>

definition strict_eq :: "number \<Rightarrow> number \<Rightarrow> bool" where
  "strict_eq a b = (a \<noteq> NaN \<and> a = b)"

text \<open>Truthiness of a number, of an optional number and of an optional string.\<close>

definition truthy_number :: "number \<Rightarrow> bool" where
  "truthy_number n = (n \<noteq> NaN \<and> n \<noteq> Fin 0)"

definition truthy :: "number option \<Rightarrow> bool" where
  "truthy v = (case v of None \<Rightarrow> False | Some n \<Rightarrow> truthy_number n)"

definition truthy_string :: "string option \<Rightarrow> bool" where
  "truthy_string v = (case v of None \<Rightarrow> False | Some s \<Rightarrow> s \<noteq> [])"

text \<open>\<^verbatim>\<open>a || b\<close> where \<open>a\<close> may be undefined and \<open>b\<close> is a number or a string.\<close>

definition number_or :: "number option \<Rightarrow> number \<Rightarrow> number" where
  "number_or a b = (case a of None \<Rightarrow> b | Some n \<Rightarrow> if truthy_number n then n else b)"

definition string_or :: "string option \<Rightarrow> string \<Rightarrow> string" where
  "string_or a b = (case a of None \<Rightarrow> b | Some x \<Rightarrow> if x \<noteq> [] then x else b)"

text \<open>
  \<^verbatim>\<open>Array.prototype.findIndex\<close> returns \<open>-1\<close> when no element satisfies the
  predicate, and an index expression outside the array yields \<^verbatim>\<open>undefined\<close>.
\<close>

fun findIndex :: "('a \<Rightarrow> bool) \<Rightarrow> 'a list \<Rightarrow> int" where
  "findIndex p [] = - 1"
| "findIndex p (x # xs) =
     (if p x then 0 else (let i = findIndex p xs in if i < 0 then - 1 else i + 1))"

definition js_index :: "'a list \<Rightarrow> int \<Rightarrow> 'a option" where
  "js_index xs i = (if 0 \<le> i \<and> i < int (length xs) then Some (xs ! nat i) else None)"

section \<open>Data model\<close>

datatype layout = Fixed | Fluid | Constrained

datatype placeholder = TracedSVG | DominantColor | Blurred | NoPlaceholder

datatype fit = Contain | Cover | Fill | Inside | Outside

text \<open>
  \<^verbatim>\<open>ISharpGatsbyImageArgs\<close>. Every field is optional. Of the open-ended keys, the
  ones read by this file are fields of their own: \<^verbatim>\<open>toFormat\<close>, \<^verbatim>\<open>sizes\<close>,
  \<^verbatim>\<open>webP\<close>, \<^verbatim>\<open>base64Width\<close> and \<^verbatim>\<open>base64Height\<close>.
\<close>

record ISharpGatsbyImageArgs =
  arg_layout :: "layout option"
  arg_placeholder :: "placeholder option"
  arg_tracedSVGOptions :: "(string \<times> string) list option"
  arg_width :: "number option"
  arg_height :: "number option"
  arg_maxWidth :: "number option"
  arg_maxHeight :: "number option"
  arg_fit :: "fit option"
  arg_toFormat :: "string option"
  arg_sizes :: "string option"
  arg_webP :: "bool option"
  arg_base64Width :: "number option"
  arg_base64Height :: "number option"

record FileNode =
  absolutePath :: "string option"
  contentDigest :: string

record IImageMetadata =
  md_width :: number
  md_height :: number
  md_format :: string
  md_density :: "string option"
  md_dominantColor :: "string option"

text \<open>What the resize collaborator returns for one transform.\<close>

record EncodedImage =
  img_src :: string
  img_width :: number
  img_height :: number
  img_aspectRatio :: "number option"

record Fallback =
  fb_src :: string
  fb_srcSet :: string
  fb_sizes :: string

record Source =
  so_srcSet :: string
  so_type :: string
  so_sizes :: string

record Images =
  fallback :: Fallback
  sources :: "Source list"

text \<open>\<^verbatim>\<open>ISharpGatsbyImageData\<close>, the descriptor that \<^verbatim>\<open>generateImageData\<close> returns.\<close>

record Placeholder =
  pl_fallback :: string

record ISharpGatsbyImageData =
  out_layout :: layout
  out_placeholder :: "Placeholder option"
  out_images :: Images
  out_backgroundColor :: "string option"
  out_width :: "number option"
  out_height :: "number option"

datatype error = TypeError | DecodeError | ResizeError | VectorizeError

text \<open>The defaults of the destructuring patterns (lines 83-84 and 113-115).\<close>

definition layout_of :: "ISharpGatsbyImageArgs \<Rightarrow> layout" where
  "layout_of args = (case arg_layout args of None \<Rightarrow> Fixed | Some l \<Rightarrow> l)"

definition fit_of :: "ISharpGatsbyImageArgs \<Rightarrow> fit" where
  "fit_of args = (case arg_fit args of None \<Rightarrow> Cover | Some f \<Rightarrow> f)"

definition placeholder_of :: "ISharpGatsbyImageArgs \<Rightarrow> placeholder" where
  "placeholder_of args =
     (case arg_placeholder args of None \<Rightarrow> DominantColor | Some p \<Rightarrow> p)"

definition tracedSVGOptions_of :: "ISharpGatsbyImageArgs \<Rightarrow> (string \<times> string) list" where
  "tracedSVGOptions_of args =
     (case arg_tracedSVGOptions args of None \<Rightarrow> [] | Some t \<Rightarrow> t)"

section \<open>Collaborators\<close>

text \<open>
  The functions imported from \<^verbatim>\<open>./utils\<close>, \<^verbatim>\<open>.\<close>, \<^verbatim>\<open>./safe-sharp\<close> and
  \<^verbatim>\<open>./plugin-options\<close> are parameters of the model. The ones that probe or encode
  an image may throw, so they return a sum; the string and arithmetic helpers are total.
  The reporter and the Gatsby cache are only handed through to them and are left out.
\<close>

record ImageSize =
  sz_width :: number
  sz_height :: number
  sz_type :: string

record SharpMetadata =
  sm_width :: number
  sm_height :: number
  sm_density :: "string option"
  sm_format :: string

record Dominant =
  dom_r :: number
  dom_g :: number
  dom_b :: number

record SharpStats =
  dominant :: "Dominant option"

record ImageSizes =
  is_sizes :: "number list"
  is_presentationWidth :: number
  is_presentationHeight :: number
  is_aspectRatio :: number

record 'tr collaborators =
  getImageSizeAsync :: "FileNode \<Rightarrow> error + ImageSize"
  sharp_metadata :: "string option \<Rightarrow> error + SharpMetadata"
  sharp_stats :: "string option \<Rightarrow> error + SharpStats"
  rgbToHex :: "number \<Rightarrow> number \<Rightarrow> number \<Rightarrow> string"
  calculateImageSizes ::
    "FileNode \<Rightarrow> layout \<Rightarrow> ISharpGatsbyImageArgs \<Rightarrow> IImageMetadata \<Rightarrow> ImageSizes"
  createTransformObject :: "ISharpGatsbyImageArgs \<Rightarrow> 'tr"
  batchQueueImageResizing :: "FileNode \<Rightarrow> 'tr list \<Rightarrow> error + EncodedImage list"
  getSrcSet :: "EncodedImage list \<Rightarrow> string"
  getSizes :: "number \<Rightarrow> string"
  base64 :: "FileNode \<Rightarrow> ISharpGatsbyImageArgs \<Rightarrow> error + string"
  traceSVG ::
    "FileNode \<Rightarrow> (string \<times> string) list \<Rightarrow> ISharpGatsbyImageArgs \<Rightarrow> error + string"

section \<open>Process state\<close>

text \<open>
  The module-level \<^verbatim>\<open>metadataCache\<close> and \<^verbatim>\<open>process.env.NODE_ENV\<close>. The field
  \<open>probes\<close> is a log of the probe calls made so far; the program does not read it.
\<close>

datatype probe =
  SizeProbe FileNode | MetadataProbe "string option" | StatsProbe "string option"

record state =
  metadataCache :: "string \<rightharpoonup> IImageMetadata"
  NODE_ENV :: "string option"
  probes :: "probe list"

section \<open>getImageMetadata\<close>

definition getImageMetadata ::
  "'tr collaborators \<Rightarrow> FileNode \<Rightarrow> bool option \<Rightarrow> state
     \<Rightarrow> (error + IImageMetadata) \<times> state" where
  "getImageMetadata c file getDominantColor s =
     (if getDominantColor \<noteq> Some True then
        (let s1 = s\<lparr>probes := probes s @ [SizeProbe file]\<rparr> in
         case getImageSizeAsync c file of
           Inl e \<Rightarrow> (Inl e, s1)
         | Inr sz \<Rightarrow>
             (Inr \<lparr>md_width = sz_width sz, md_height = sz_height sz,
                   md_format = sz_type sz, md_density = None,
                   md_dominantColor = None\<rparr>, s1))
      else
        (let cached = metadataCache s (contentDigest file) in
         if cached \<noteq> None \<and> NODE_ENV s \<noteq> Some ''test'' then (Inr (the cached), s)
         else
             (let s1 = s\<lparr>probes := probes s @ [MetadataProbe (absolutePath file)]\<rparr> in
              case sharp_metadata c (absolutePath file) of
                Inl e \<Rightarrow> (Inl e, s1)
              | Inr sm \<Rightarrow>
                  (let s2 = s1\<lparr>probes := probes s1 @ [StatsProbe (absolutePath file)]\<rparr> in
                   case sharp_stats c (absolutePath file) of
                     Inl e \<Rightarrow> (Inl e, s2)
                   | Inr st \<Rightarrow>
                       (let dominantColor =
                              (case dominant st of
                                 Some d \<Rightarrow> rgbToHex c (dom_r d) (dom_g d) (dom_b d)
                               | None \<Rightarrow> ''#000000'');
                            metadata =
                              \<lparr>md_width = sm_width sm, md_height = sm_height sm,
                               md_format = sm_format sm, md_density = sm_density sm,
                               md_dominantColor = Some dominantColor\<rparr>
                        in (Inr metadata,
                            s2\<lparr>metadataCache :=
                                 (metadataCache s2)(contentDigest file \<mapsto> metadata)\<rparr>))))))"

section \<open>getOutputAspectRatio\<close>

text \<open>
  The explicit dimensions are divided only under the guard that finds them truthy, hence
  defined.
\<close>

definition getOutputAspectRatio :: "ISharpGatsbyImageArgs \<Rightarrow> IImageMetadata \<Rightarrow> number" where
  "getOutputAspectRatio args metadata =
     (let width = arg_width args; height = arg_height args;
          maxWidth = arg_maxWidth args; maxHeight = arg_maxHeight args;
          layout = layout_of args; fit = fit_of args
      in if fit = Inside \<or> fit = Outside then
           js_div (md_width metadata) (md_height metadata)
         else if truthy height \<and> truthy width \<and> layout = Fixed then
           js_div (the width) (the height)
         else if truthy maxWidth \<and> truthy maxHeight \<and> layout \<noteq> Fixed then
           js_div (the maxWidth) (the maxHeight)
         else js_div (md_width metadata) (md_height metadata))"

section \<open>generateImageData\<close>

text \<open>
  The body of the two \<^verbatim>\<open>sizes.map\<close> callbacks (lines 133-142 and 176-185): the
  arguments handed to \<^verbatim>\<open>createTransformObject\<close> for one target width.
\<close>

definition transformArgs ::
  "ISharpGatsbyImageArgs \<Rightarrow> number \<Rightarrow> string \<Rightarrow> number \<Rightarrow> ISharpGatsbyImageArgs" where
  "transformArgs args aspectRatio toFormat outputWidth =
     (let width = Math_round outputWidth
      in args\<lparr>arg_width := Some width,
              arg_height := Some (Math_round (js_div width aspectRatio)),
              arg_toFormat := Some toFormat\<rparr>)"

definition transforms ::
  "'tr collaborators \<Rightarrow> ISharpGatsbyImageArgs \<Rightarrow> ImageSizes \<Rightarrow> string \<Rightarrow> 'tr list" where
  "transforms c args imgSizes toFormat =
     map (\<lambda>outputWidth.
            createTransformObject c
              (transformArgs args (is_aspectRatio imgSizes) toFormat outputWidth))
         (is_sizes imgSizes)"

text \<open>Lines 175-199: the optional WebP source.\<close>

definition addWebpSource ::
  "'tr collaborators \<Rightarrow> FileNode \<Rightarrow> ISharpGatsbyImageArgs \<Rightarrow> ImageSizes \<Rightarrow> string
     \<Rightarrow> ISharpGatsbyImageData \<Rightarrow> error + ISharpGatsbyImageData" where
  "addWebpSource c file args imgSizes sizes imageProps =
     (if arg_webP args = Some True then
        (case batchQueueImageResizing c file (transforms c args imgSizes ''webp'') of
           Inl e \<Rightarrow> Inl e
         | Inr webpImages \<Rightarrow>
             (let webpSrcSet = getSrcSet c webpImages
              in Inr (imageProps\<lparr>out_images :=
                        (out_images imageProps)\<lparr>sources :=
                           sources (out_images imageProps) @
                             [\<lparr>so_srcSet = webpSrcSet, so_type = ''image/webp'',
                               so_sizes = sizes\<rparr>]\<rparr>\<rparr>)))
      else Inr imageProps)"

text \<open>Lines 201-223: the placeholder strategy.\<close>

definition addPlaceholder ::
  "'tr collaborators \<Rightarrow> FileNode \<Rightarrow> ISharpGatsbyImageArgs \<Rightarrow> placeholder
     \<Rightarrow> (string \<times> string) list \<Rightarrow> IImageMetadata
     \<Rightarrow> ISharpGatsbyImageData \<Rightarrow> error + ISharpGatsbyImageData" where
  "addPlaceholder c file args placeholder tracedSVGOptions metadata imageProps =
     (if placeholder = Blurred then
        (case base64 c file (args\<lparr>arg_width := arg_base64Width args,
                                    arg_height := arg_base64Height args\<rparr>) of
           Inl e \<Rightarrow> Inl e
         | Inr fb \<Rightarrow> Inr (imageProps\<lparr>out_placeholder := Some \<lparr>pl_fallback = fb\<rparr>\<rparr>))
      else if placeholder = TracedSVG then
        (case traceSVG c file tracedSVGOptions args of
           Inl e \<Rightarrow> Inl e
         | Inr fb \<Rightarrow> Inr (imageProps\<lparr>out_placeholder := Some \<lparr>pl_fallback = fb\<rparr>\<rparr>))
      else if truthy_string (md_dominantColor metadata) then
        Inr (imageProps\<lparr>out_backgroundColor := md_dominantColor metadata\<rparr>)
      else Inr imageProps)"

text \<open>
  Lines 225-241: the aspect-ratio default and the layout switch. Line 225 overwrites
  \<^verbatim>\<open>primaryImage.aspectRatio\<close>; \<open>aspectRatio\<close> below is the field after that
  assignment, and the encoded image is not part of what is returned.
\<close>

definition setDimensions ::
  "layout \<Rightarrow> ISharpGatsbyImageArgs \<Rightarrow> EncodedImage
     \<Rightarrow> ISharpGatsbyImageData \<Rightarrow> ISharpGatsbyImageData" where
  "setDimensions layout args primaryImage imageProps =
     (let aspectRatio = number_or (img_aspectRatio primaryImage) (Fin 1)
      in case layout of
           Fixed \<Rightarrow>
             imageProps\<lparr>out_width := Some (img_width primaryImage),
                         out_height := Some (img_height primaryImage)\<rparr>
         | Fluid \<Rightarrow>
             imageProps\<lparr>out_width := Some (Fin 1),
                         out_height := Some (js_div (Fin 1) aspectRatio)\<rparr>
         | Constrained \<Rightarrow>
             (let width = number_or (arg_maxWidth args)
                            (number_or (Some (img_width primaryImage)) (Fin 1))
              in imageProps\<lparr>out_width := Some width,
                             out_height :=
                               Some (js_div (number_or (Some width) (Fin 1)) aspectRatio)\<rparr>))"

text \<open>
  Lines 120-131, 144-148 and 153-157: the sizes computed by the sizing collaborator, the
  encoded images of the primary format, and the primary image looked up in them.
\<close>

definition imageSizes ::
  "'tr collaborators \<Rightarrow> FileNode \<Rightarrow> ISharpGatsbyImageArgs \<Rightarrow> IImageMetadata \<Rightarrow> ImageSizes" where
  "imageSizes c file args metadata = calculateImageSizes c file (layout_of args) args metadata"

definition images ::
  "'tr collaborators \<Rightarrow> FileNode \<Rightarrow> ISharpGatsbyImageArgs \<Rightarrow> IImageMetadata
     \<Rightarrow> error + EncodedImage list" where
  "images c file args metadata =
     batchQueueImageResizing c file
       (transforms c args (imageSizes c file args metadata)
          (string_or (arg_toFormat args) (md_format metadata)))"

definition primaryImage :: "ImageSizes \<Rightarrow> EncodedImage list \<Rightarrow> EncodedImage option" where
  "primaryImage imgSizes imgs =
     (let primaryIndex =
            findIndex (\<lambda>size. strict_eq size (is_presentationWidth imgSizes))
              (is_sizes imgSizes)
      in js_index imgs primaryIndex)"

text \<open>Lines 162-173: the descriptor as first built.\<close>

definition initialImageProps ::
  "layout \<Rightarrow> EncodedImage \<Rightarrow> string \<Rightarrow> string \<Rightarrow> ISharpGatsbyImageData" where
  "initialImageProps layout primary srcSet sizes =
     \<lparr>out_layout = layout, out_placeholder = None,
      out_images = \<lparr>fallback = \<lparr>fb_src = img_src primary, fb_srcSet = srcSet,
                                fb_sizes = sizes\<rparr>,
                    sources = []\<rparr>,
      out_backgroundColor = None, out_width = None, out_height = None\<rparr>"

definition generateImageData ::
  "'tr collaborators \<Rightarrow> FileNode \<Rightarrow> ISharpGatsbyImageArgs \<Rightarrow> state
     \<Rightarrow> (error + ISharpGatsbyImageData option) \<times> state" where
  "generateImageData c file args s =
     (let layout = layout_of args;
          placeholder = placeholder_of args;
          tracedSVGOptions = tracedSVGOptions_of args
      in case getImageMetadata c file (Some (placeholder = DominantColor)) s of
           (Inl e, s1) \<Rightarrow> (Inl e, s1)
         | (Inr metadata, s1) \<Rightarrow>
             (case images c file args metadata of
                Inl e \<Rightarrow> (Inl e, s1)
              | Inr imgs \<Rightarrow>
                  (let srcSet = getSrcSet c imgs;
                       sizes = string_or (arg_sizes args)
                                 (getSizes c
                                    (is_presentationWidth (imageSizes c file args metadata)))
                   in if imgs = [] then (Inr None, s1)
                      else
                        (case primaryImage (imageSizes c file args metadata) imgs of
                           None \<Rightarrow> (Inl TypeError, s1)
                         | Some primary \<Rightarrow>
                             (case addWebpSource c file args
                                     (imageSizes c file args metadata) sizes
                                     (initialImageProps layout primary srcSet sizes) of
                                Inl e \<Rightarrow> (Inl e, s1)
                              | Inr imageProps1 \<Rightarrow>
                                  (case addPlaceholder c file args placeholder
                                          tracedSVGOptions metadata imageProps1 of
                                     Inl e \<Rightarrow> (Inl e, s1)
                                   | Inr imageProps2 \<Rightarrow>
                                       (Inr (Some (setDimensions layout args primary
                                                     imageProps2)), s1)))))))"


section \<open>Runs of the module\<close>

text \<open>
  The module starts with an empty cache, and its state changes only through calls of its
  two stateful exports. A run is a sequence of such calls, each with the collaborators
  it meets.
\<close>

datatype 'tr call =
  GetImageMetadata "'tr collaborators" FileNode "bool option"
| GenerateImageData "'tr collaborators" FileNode ISharpGatsbyImageArgs

fun run :: "'tr call list \<Rightarrow> state \<Rightarrow> state" where
  "run [] s = s"
| "run (GetImageMetadata c file g # calls) s = run calls (snd (getImageMetadata c file g s))"
| "run (GenerateImageData c file args # calls) s =
     run calls (snd (generateImageData c file args s))"

definition cache_populated :: "state \<Rightarrow> bool" where
  "cache_populated s = (\<forall>k m. metadataCache s k = Some m \<longrightarrow> md_dominantColor m \<noteq> None)"

section \<open>Example inputs\<close>

text \<open>
  A 600 by 400 PNG with dominant colour (8, 128, 255), planned at the widths 300 and 600
  and presented at 300. The example resize collaborator encodes every transform it is
  given and reports the transform's own dimensions.
\<close>

definition hex_digit :: "nat \<Rightarrow> char" where
  "hex_digit n = ''0123456789abcdef'' ! (n mod 16)"

definition hex_byte :: "number \<Rightarrow> string" where
  "hex_byte v =
     (case v of
        Fin x \<Rightarrow> (let n = nat \<lfloor>x\<rfloor> mod 256 in [hex_digit (n div 16), hex_digit n])
      | _ \<Rightarrow> ''00'')"

definition example_collaborators :: "ISharpGatsbyImageArgs collaborators" where
  "example_collaborators =
     \<lparr>getImageSizeAsync =
        (\<lambda>file. Inr \<lparr>sz_width = Fin 600, sz_height = Fin 400, sz_type = ''png''\<rparr>),
      sharp_metadata =
        (\<lambda>path. Inr \<lparr>sm_width = Fin 600, sm_height = Fin 400, sm_density = None,
                       sm_format = ''png''\<rparr>),
      sharp_stats =
        (\<lambda>path. Inr \<lparr>dominant = Some \<lparr>dom_r = Fin 8, dom_g = Fin 128, dom_b = Fin 255\<rparr>\<rparr>),
      rgbToHex = (\<lambda>r g b. CHR ''#'' # hex_byte r @ hex_byte g @ hex_byte b),
      calculateImageSizes =
        (\<lambda>file layout args metadata.
           \<lparr>is_sizes = [Fin 300, Fin 600], is_presentationWidth = Fin 300,
            is_presentationHeight = Fin 200,
            is_aspectRatio = js_div (md_width metadata) (md_height metadata)\<rparr>),
      createTransformObject = (\<lambda>args. args),
      batchQueueImageResizing =
        (\<lambda>file ts.
           Inr (map (\<lambda>t. \<lparr>img_src = ''/static/img.png'',
                            img_width = number_or (arg_width t) (Fin 0),
                            img_height = number_or (arg_height t) (Fin 0),
                            img_aspectRatio =
                              Some (js_div (number_or (arg_width t) (Fin 0))
                                      (number_or (arg_height t) (Fin 0)))\<rparr>) ts)),
      getSrcSet = (\<lambda>imgs. concat (map img_src imgs)),
      getSizes = (\<lambda>w. ''100vw''),
      base64 = (\<lambda>file args. Inr ''data:image/png;base64,AAAA''),
      traceSVG = (\<lambda>file opts args. Inr ''data:image/svg+xml,svg'')\<rparr>"

text \<open>The same, with a presentation width that is none of the planned widths.\<close>

definition mismatched_collaborators :: "ISharpGatsbyImageArgs collaborators" where
  "mismatched_collaborators =
     example_collaborators\<lparr>calculateImageSizes :=
       (\<lambda>file layout args metadata.
          \<lparr>is_sizes = [Fin 300, Fin 600], is_presentationWidth = Fin 450,
           is_presentationHeight = Fin 300,
           is_aspectRatio = js_div (md_width metadata) (md_height metadata)\<rparr>)\<rparr>"

text \<open>Collaborators whose probes all throw and whose resize encodes nothing.\<close>

definition failing_collaborators :: "ISharpGatsbyImageArgs collaborators" where
  "failing_collaborators =
     example_collaborators\<lparr>getImageSizeAsync := (\<lambda>file. Inl DecodeError),
       sharp_metadata := (\<lambda>path. Inl DecodeError),
       sharp_stats := (\<lambda>path. Inl DecodeError),
       batchQueueImageResizing := (\<lambda>file ts. Inr [])\<rparr>"

text \<open>Collaborators whose resize throws.\<close>

definition unresizable_collaborators :: "ISharpGatsbyImageArgs collaborators" where
  "unresizable_collaborators =
     example_collaborators\<lparr>batchQueueImageResizing := (\<lambda>file ts. Inl ResizeError)\<rparr>"

definition example_file :: FileNode where
  "example_file = \<lparr>absolutePath = Some ''/site/a.png'', contentDigest = ''digest-a''\<rparr>"

definition example_args :: ISharpGatsbyImageArgs where
  "example_args =
     \<lparr>arg_layout = None, arg_placeholder = None, arg_tracedSVGOptions = None,
      arg_width = None, arg_height = None, arg_maxWidth = None, arg_maxHeight = None,
      arg_fit = None, arg_toFormat = None, arg_sizes = None, arg_webP = None,
      arg_base64Width = None, arg_base64Height = None\<rparr>"

definition square_metadata :: IImageMetadata where
  "square_metadata =
     \<lparr>md_width = Fin 50, md_height = Fin 50, md_format = ''png'', md_density = None,
      md_dominantColor = None\<rparr>"

definition example_metadata :: IImageMetadata where
  "example_metadata =
     \<lparr>md_width = Fin 600, md_height = Fin 400, md_format = ''png'', md_density = None,
      md_dominantColor = Some ''#0880ff''\<rparr>"

definition example_size_metadata :: IImageMetadata where
  "example_size_metadata =
     \<lparr>md_width = Fin 600, md_height = Fin 400, md_format = ''png'', md_density = None,
      md_dominantColor = None\<rparr>"

definition example_state :: state where
  "example_state = \<lparr>metadataCache = Map.empty, NODE_ENV = None, probes = []\<rparr>"

definition example_cached_state :: state where
  "example_cached_state =
     \<lparr>metadataCache = [''digest-a'' \<mapsto> example_metadata], NODE_ENV = None,
      probes = [MetadataProbe (Some ''/site/a.png''), StatsProbe (Some ''/site/a.png'')]\<rparr>"

definition example_test_state :: state where
  "example_test_state = example_cached_state\<lparr>NODE_ENV := Some ''test''\<rparr>"

definition example_images :: "EncodedImage list" where
  "example_images =
     [\<lparr>img_src = ''/static/img.png'', img_width = Fin 300, img_height = Fin 200,
       img_aspectRatio = Some (Fin 1.5)\<rparr>,
      \<lparr>img_src = ''/static/img.png'', img_width = Fin 600, img_height = Fin 400,
       img_aspectRatio = Some (Fin 1.5)\<rparr>]"

definition example_descriptor ::
  "layout \<Rightarrow> Placeholder option \<Rightarrow> string option \<Rightarrow> number \<Rightarrow> number
     \<Rightarrow> ISharpGatsbyImageData" where
  "example_descriptor l p b w h =
     \<lparr>out_layout = l, out_placeholder = p,
      out_images = \<lparr>fallback = \<lparr>fb_src = ''/static/img.png'',
                                fb_srcSet = ''/static/img.png/static/img.png'',
                                fb_sizes = ''100vw''\<rparr>,
                    sources = []\<rparr>,
      out_backgroundColor = b, out_width = Some w, out_height = Some h\<rparr>"

section \<open>Values of the rounding\<close>

text \<open>\<open>floor_log2\<close> locates a positive real between two consecutive powers of two.\<close>

lemma bit_length_bounds: "0 < n \<Longrightarrow> 2 ^ (bit_length n - 1) \<le> n \<and> n < 2 ^ bit_length n"
proof (induction n rule: bit_length.induct)
  case (1 n)
  show ?case
  proof (cases "n div 2 = 0")
    case True
    with 1(2) have "n = 1" by (simp add: div_eq_0_iff) 
    then show ?thesis by (simp add: bit_length.simps)
  next
    case False
    then have pos: "0 < n div 2" by simp
    from 1(2) have n0: "n \<noteq> 0" by simp
    note ih = 1(1) [OF n0 pos]
    have bl: "bit_length n = Suc (bit_length (n div 2))"
      using n0 by (subst bit_length.simps) simp
    have blpos: "0 < bit_length (n div 2)"
      using pos by (subst bit_length.simps) simp
    then obtain k where k: "bit_length (n div 2) = Suc k"
      by (cases "bit_length (n div 2)") simp_all
    from ih k have a: "2 ^ k \<le> n div 2" and b: "n div 2 < 2 * 2 ^ k" by simp_all
    have "2 * 2 ^ k \<le> n" using a by arith
    moreover have "n < 2 * (2 * 2 ^ k)" using b by arith
    ultimately show ?thesis by (simp add: bl k)
  qed
qed

lemma pow2_nat: "pow2 (int k) = 2 ^ k"
  by (simp add: pow2_def)

lemma pow2_neg: "pow2 (- int k) = 1 / 2 ^ k"
proof (cases "k = 0")
  case True
  then show ?thesis by (simp add: pow2_def)
next
  case False
  then have "\<not> 0 \<le> - int k" by simp
  then show ?thesis unfolding pow2_def by (simp del: of_nat_Suc)
qed

lemma floor_log2_bounds:
  assumes "0 < a"
  shows "pow2 (floor_log2 a) \<le> a \<and> a < pow2 (floor_log2 a + 1)"
proof (cases "1 \<le> a")
  case True
  define n where "n = nat \<lfloor>a\<rfloor>"
  have fa: "1 \<le> \<lfloor>a\<rfloor>"
    using True by (simp add: le_floor_iff)
  then have rn: "real n = of_int \<lfloor>a\<rfloor>"
    by (simp add: n_def)
  have n: "0 < n" "real n \<le> a" "a < real n + 1"
    using fa rn floor_correct [of a] by (simp_all add: n_def)
  from bit_length_bounds [OF n(1)] obtain k where
    k: "bit_length n = Suc k" "2 ^ k \<le> n" "n < 2 ^ Suc k"
    by (cases "bit_length n") auto
  have "(2::real) ^ k \<le> real n"
    using k(2) by (metis of_nat_le_iff of_nat_numeral of_nat_power)
  moreover have "real n + 1 \<le> 2 ^ Suc k"
    using k(3) by (metis Suc_leI of_nat_Suc of_nat_le_iff of_nat_numeral of_nat_power add.commute plus_1_eq_Suc)
  moreover have "floor_log2 a = int k"
    using True by (simp add: floor_log2_def n_def [symmetric] k(1))
  moreover have "int k + 1 = int (Suc k)" by simp
  ultimately show ?thesis
    using n by (simp only: pow2_nat) linarith
next
  case False
  define y where "y = 1 / a"
  define n where "n = nat (\<lceil>y\<rceil> - 1)"
  have y: "1 < y" using assms False by (simp add: y_def)
  have c: "1 < \<lceil>y\<rceil>"
    using y by (simp add: less_ceiling_iff)
  then have rn: "real n = of_int \<lceil>y\<rceil> - 1"
    by (simp add: n_def)
  have n: "0 < n" "real n < y" "y \<le> real n + 1"
    using c rn ceiling_correct [of y] by (simp_all add: n_def)
  from bit_length_bounds [OF n(1)] obtain k where
    k: "bit_length n = Suc k" "2 ^ k \<le> n" "n < 2 ^ Suc k"
    by (cases "bit_length n") auto
  have lo: "(2::real) ^ k \<le> real n"
    using k(2) by (metis of_nat_le_iff of_nat_numeral of_nat_power)
  have hi: "real n + 1 \<le> 2 ^ Suc k"
    using k(3) by (metis Suc_leI of_nat_Suc of_nat_le_iff of_nat_numeral of_nat_power add.commute plus_1_eq_Suc)
  have fl: "floor_log2 a = - int (Suc k)"
    using False by (simp add: floor_log2_def y_def [symmetric] n_def [symmetric] k(1))
  have a: "a = 1 / y" using assms by (simp add: y_def)
  have ypos: "0 < y"
    using y by simp
  have yk: "y \<le> 2 ^ Suc k"
    using hi n(3) by linarith
  have ky: "2 ^ k < y"
    using lo n(2) by linarith
  have "1 / 2 ^ Suc k \<le> a"
    unfolding a using yk ypos by (simp add: field_simps)
  moreover have "a < 1 / 2 ^ k"
    unfolding a using ky ypos by (simp add: field_simps)
  moreover have "- int (Suc k) + 1 = - int k" by simp
  ultimately show ?thesis
    unfolding fl by (simp only: pow2_neg)
qed

lemma binary64_eq:
  assumes "x \<noteq> 0" and "max (floor_log2 \<bar>x\<bar> - 52) (- 1074) = e"
    and "of_int (round_half_even (\<bar>x\<bar> / pow2 e)) * pow2 e = r" and "r < 2 ^ 1024"
  shows "binary64 x = Fin (if 0 < x then r else - r)"
proof -
  have "\<not> 2 ^ 1024 \<le> r"
    using assms(4) by simp
  then show ?thesis
    unfolding binary64_def Let_def assms(2) assms(3) using assms(1) by simp
qed

text \<open>
  The quotients met below. The decimals 100.4, 200.6 and 1.6 are not binary64 values;
  as number literals they denote the nearest ones. The quotient of 100 by the binary64
  value of 1.6 is exactly 62.5 after rounding, although the real quotient is below it.
\<close>

lemma binary64_1: "binary64 (1) = Fin (1)"
proof -
  have e: "max (floor_log2 \<bar>1\<bar> - 52) (- 1074) = - 52"
    by (simp add: floor_log2_def bit_length.simps)
  have r: "of_int (round_half_even (\<bar>1\<bar> / pow2 (- 52))) * pow2 (- 52) = (1 :: real)"
    by (simp add: pow2_def round_half_even_def Let_def)
  show ?thesis
    using binary64_eq [OF _ e r] by simp
qed

lemma binary64_2: "binary64 (2) = Fin (2)"
proof -
  have e: "max (floor_log2 \<bar>2\<bar> - 52) (- 1074) = - 51"
    by (simp add: floor_log2_def bit_length.simps)
  have r: "of_int (round_half_even (\<bar>2\<bar> / pow2 (- 51))) * pow2 (- 51) = (2 :: real)"
    by (simp add: pow2_def round_half_even_def Let_def)
  show ?thesis
    using binary64_eq [OF _ e r] by simp
qed

lemma binary64_3_2: "binary64 (3 / 2) = Fin (3 / 2)"
proof -
  have e: "max (floor_log2 \<bar>3 / 2\<bar> - 52) (- 1074) = - 52"
    by (simp add: floor_log2_def bit_length.simps)
  have r: "of_int (round_half_even (\<bar>3 / 2\<bar> / pow2 (- 52))) * pow2 (- 52) = (3 / 2 :: real)"
    by (simp add: pow2_def round_half_even_def Let_def)
  show ?thesis
    using binary64_eq [OF _ e r] by simp
qed

lemma binary64_50: "binary64 (50) = Fin (50)"
proof -
  have e: "max (floor_log2 \<bar>50\<bar> - 52) (- 1074) = - 47"
    by (simp add: floor_log2_def bit_length.simps)
  have r: "of_int (round_half_even (\<bar>50\<bar> / pow2 (- 47))) * pow2 (- 47) = (50 :: real)"
    by (simp add: pow2_def round_half_even_def Let_def)
  show ?thesis
    using binary64_eq [OF _ e r] by simp
qed

lemma binary64_200: "binary64 (200) = Fin (200)"
proof -
  have e: "max (floor_log2 \<bar>200\<bar> - 52) (- 1074) = - 45"
    by (simp add: floor_log2_def bit_length.simps)
  have r: "of_int (round_half_even (\<bar>200\<bar> / pow2 (- 45))) * pow2 (- 45) = (200 :: real)"
    by (simp add: pow2_def round_half_even_def Let_def)
  show ?thesis
    using binary64_eq [OF _ e r] by simp
qed

lemma binary64_400: "binary64 (400) = Fin (400)"
proof -
  have e: "max (floor_log2 \<bar>400\<bar> - 52) (- 1074) = - 44"
    by (simp add: floor_log2_def bit_length.simps)
  have r: "of_int (round_half_even (\<bar>400\<bar> / pow2 (- 44))) * pow2 (- 44) = (400 :: real)"
    by (simp add: pow2_def round_half_even_def Let_def)
  show ?thesis
    using binary64_eq [OF _ e r] by simp
qed

lemma binary64_201_2: "binary64 (201 / 2) = Fin (201 / 2)"
proof -
  have e: "max (floor_log2 \<bar>201 / 2\<bar> - 52) (- 1074) = - 46"
    by (simp add: floor_log2_def bit_length.simps)
  have r: "of_int (round_half_even (\<bar>201 / 2\<bar> / pow2 (- 46))) * pow2 (- 46) = (201 / 2 :: real)"
    by (simp add: pow2_def round_half_even_def Let_def)
  show ?thesis
    using binary64_eq [OF _ e r] by simp
qed

lemma binary64_2_3: "binary64 (2 / 3) = Fin (6004799503160661 / 9007199254740992)"
proof -
  have e: "max (floor_log2 \<bar>2 / 3\<bar> - 52) (- 1074) = - 53"
    by (simp add: floor_log2_def bit_length.simps)
  have r: "of_int (round_half_even (\<bar>2 / 3\<bar> / pow2 (- 53))) * pow2 (- 53) = (6004799503160661 / 9007199254740992 :: real)"
    by (simp add: pow2_def round_half_even_def Let_def)
  show ?thesis
    using binary64_eq [OF _ e r] by simp
qed

lemma binary64_502_5: "binary64 (502 / 5) = Fin (3532510957718733 / 35184372088832)"
proof -
  have e: "max (floor_log2 \<bar>502 / 5\<bar> - 52) (- 1074) = - 46"
    by (simp add: floor_log2_def bit_length.simps)
  have r: "of_int (round_half_even (\<bar>502 / 5\<bar> / pow2 (- 46))) * pow2 (- 46) = (3532510957718733 / 35184372088832 :: real)"
    by (simp add: pow2_def round_half_even_def Let_def)
  show ?thesis
    using binary64_eq [OF _ e r] by simp
qed

lemma binary64_1003_5: "binary64 (1003 / 5) = Fin (7057985041019699 / 35184372088832)"
proof -
  have e: "max (floor_log2 \<bar>1003 / 5\<bar> - 52) (- 1074) = - 45"
    by (simp add: floor_log2_def bit_length.simps)
  have r: "of_int (round_half_even (\<bar>1003 / 5\<bar> / pow2 (- 45))) * pow2 (- 45) = (7057985041019699 / 35184372088832 :: real)"
    by (simp add: pow2_def round_half_even_def Let_def)
  show ?thesis
    using binary64_eq [OF _ e r] by simp
qed

lemma binary64_8_5: "binary64 (8 / 5) = Fin (3602879701896397 / 2251799813685248)"
proof -
  have e: "max (floor_log2 \<bar>8 / 5\<bar> - 52) (- 1074) = - 52"
    by (simp add: floor_log2_def bit_length.simps)
  have r: "of_int (round_half_even (\<bar>8 / 5\<bar> / pow2 (- 52))) * pow2 (- 52) = (3602879701896397 / 2251799813685248 :: real)"
    by (simp add: pow2_def round_half_even_def Let_def)
  show ?thesis
    using binary64_eq [OF _ e r] by simp
qed

lemma binary64_q: "binary64 (225179981368524800 / 3602879701896397) = Fin (125 / 2)"
proof -
  have e: "max (floor_log2 \<bar>225179981368524800 / 3602879701896397\<bar> - 52) (- 1074) = - 47"
    by (simp add: floor_log2_def bit_length.simps)
  have r: "of_int (round_half_even (\<bar>225179981368524800 / 3602879701896397\<bar> / pow2 (- 47))) * pow2 (- 47) = (125 / 2 :: real)"
    by (simp add: pow2_def round_half_even_def Let_def)
  show ?thesis
    using binary64_eq [OF _ e r] by simp
qed

lemmas binary64_values =
  binary64_1 binary64_2 binary64_3_2 binary64_50 binary64_200 binary64_400
  binary64_201_2 binary64_2_3 binary64_502_5 binary64_1003_5 binary64_8_5 binary64_q

lemmas ex =
  example_collaborators_def mismatched_collaborators_def failing_collaborators_def
  unresizable_collaborators_def
  example_file_def example_args_def square_metadata_def example_metadata_def
  example_size_metadata_def example_state_def example_cached_state_def
  example_test_state_def example_images_def example_descriptor_def
  hex_byte_def hex_digit_def

lemmas model =
  generateImageData_def getImageMetadata_def images_def imageSizes_def transforms_def
  transformArgs_def primaryImage_def initialImageProps_def addWebpSource_def
  addPlaceholder_def setDimensions_def layout_of_def fit_of_def placeholder_of_def
  tracedSVGOptions_of_def string_or_def number_or_def strict_eq_def js_index_def
  truthy_def truthy_number_def truthy_string_def Let_def binary64_values


section \<open>Properties of getOutputAspectRatio\<close>

text \<open>
  C7. Whenever \<^verbatim>\<open>fit\<close> is \<^verbatim>\<open>inside\<close> or \<^verbatim>\<open>outside\<close>, getOutputAspectRatio
  returns \<^verbatim>\<open>metadata.width / metadata.height\<close>, for every layout mode and whatever
  explicit width, height, maxWidth or maxHeight the arguments carry.
\<close>

theorem getOutputAspectRatio_inside_outside:
  assumes "arg_fit args = Some Inside \<or> arg_fit args = Some Outside"
  shows "getOutputAspectRatio args metadata = js_div (md_width metadata) (md_height metadata)"
  using assms by (auto simp: getOutputAspectRatio_def fit_of_def)

text \<open>
  A fixed layout with both explicit dimensions set, which would otherwise decide the
  ratio, and a 600 by 400 source.
\<close>

theorem getOutputAspectRatio_inside_outside_witness:
  "arg_fit (example_args\<lparr>arg_layout := Some Fixed, arg_fit := Some Inside,
                         arg_width := Some (Fin 200), arg_height := Some (Fin 100)\<rparr>)
     = Some Inside
   \<and> getOutputAspectRatio
         (example_args\<lparr>arg_layout := Some Fixed, arg_fit := Some Inside,
                        arg_width := Some (Fin 200), arg_height := Some (Fin 100)\<rparr>)
         example_metadata = Fin (3 / 2)"
  using getOutputAspectRatio_inside_outside
          [of "example_args\<lparr>arg_layout := Some Fixed, arg_fit := Some Inside,
                             arg_width := Some (Fin 200), arg_height := Some (Fin 100)\<rparr>"
              example_metadata]
  by (simp add: ex binary64_values)

text \<open>
  The claim that a square source always resolves to the ratio 1 fails: under the fixed
  layout an explicit 200 by 100 box decides the ratio, which is 2 for a 50 by 50 source.
\<close>

theorem getOutputAspectRatio_square_counterexample:
  "md_width square_metadata = md_height square_metadata
   \<and> getOutputAspectRatio
         (example_args\<lparr>arg_layout := Some Fixed, arg_width := Some (Fin 200),
                        arg_height := Some (Fin 100)\<rparr>)
         square_metadata = Fin 2
   \<and> Fin 2 \<noteq> Fin 1"
  by (simp add: getOutputAspectRatio_def ex model)

text \<open>
  C6, as amended. For metadata whose width equals its height (finite and not zero),
  getOutputAspectRatio returns 1 when \<^verbatim>\<open>fit\<close> is \<^verbatim>\<open>inside\<close> or
  \<^verbatim>\<open>outside\<close>, and otherwise unless the pair of explicit dimensions that the layout
  reads is given: width and height under the fixed layout, maxWidth and maxHeight under
  the fluid and constrained layouts. When that pair is given, the result is its quotient.
\<close>

theorem getOutputAspectRatio_square:
  assumes "md_width metadata = Fin w" and "md_height metadata = Fin w" and "w \<noteq> 0"
  shows "getOutputAspectRatio args metadata =
           (if arg_fit args = Some Inside \<or> arg_fit args = Some Outside then Fin 1
            else if truthy (arg_height args) \<and> truthy (arg_width args)
                    \<and> (arg_layout args = None \<or> arg_layout args = Some Fixed)
              then js_div (the (arg_width args)) (the (arg_height args))
            else if truthy (arg_maxWidth args) \<and> truthy (arg_maxHeight args)
                    \<and> (arg_layout args = Some Fluid \<or> arg_layout args = Some Constrained)
              then js_div (the (arg_maxWidth args)) (the (arg_maxHeight args))
            else Fin 1)"
proof -
  have sq: "js_div (md_width metadata) (md_height metadata) = Fin 1"
    using assms by (simp add: binary64_1)
  show ?thesis
  proof (cases "arg_layout args")
    case None
    then show ?thesis
      by (auto simp: getOutputAspectRatio_def layout_of_def fit_of_def Let_def sq
               split: option.splits)
  next
    case (Some l)
    then show ?thesis
      by (cases l)
         (auto simp: getOutputAspectRatio_def layout_of_def fit_of_def Let_def sq
               split: option.splits)
  qed
qed

text \<open>A fluid layout that gives maxWidth alone: the source decides, and the ratio is 1.\<close>

theorem getOutputAspectRatio_square_witness:
  "md_width square_metadata = Fin 50 \<and> md_height square_metadata = Fin 50
   \<and> getOutputAspectRatio
         (example_args\<lparr>arg_layout := Some Fluid, arg_fit := Some Contain,
                        arg_maxWidth := Some (Fin 800)\<rparr>)
         square_metadata = Fin 1"
proof -
  have h: "md_width square_metadata = Fin 50" "md_height square_metadata = Fin 50"
    "(50::real) \<noteq> 0"
    by (simp_all add: square_metadata_def)
  show ?thesis
    using h getOutputAspectRatio_square
              [OF h, of "example_args\<lparr>arg_layout := Some Fluid, arg_fit := Some Contain,
                                      arg_maxWidth := Some (Fin 800)\<rparr>"]
    by (simp add: example_args_def truthy_def)
qed

section \<open>Properties of getImageMetadata\<close>

lemma getImageMetadata_cheap:
  "g \<noteq> Some True \<Longrightarrow>
     getImageMetadata c file g s =
       (case getImageSizeAsync c file of
          Inl e \<Rightarrow> Inl e
        | Inr sz \<Rightarrow> Inr \<lparr>md_width = sz_width sz, md_height = sz_height sz,
                          md_format = sz_type sz, md_density = None,
                          md_dominantColor = None\<rparr>,
        s\<lparr>probes := probes s @ [SizeProbe file]\<rparr>)"
  by (simp add: getImageMetadata_def Let_def split: sum.splits)

lemma getImageMetadata_hit:
  "metadataCache s (contentDigest file) = Some m \<Longrightarrow> NODE_ENV s \<noteq> Some ''test'' \<Longrightarrow>
     getImageMetadata c file (Some True) s = (Inr m, s)"
  by (simp add: getImageMetadata_def)

lemma getImageMetadata_stored:
  "getImageMetadata c file (Some True) s = (Inr m, s1) \<Longrightarrow>
     metadataCache s1 (contentDigest file) = Some m"
  by (auto simp: getImageMetadata_def Let_def split: sum.splits if_splits)

lemma getImageMetadata_recompute:
  "metadataCache s (contentDigest file) = None \<or> NODE_ENV s = Some ''test'' \<Longrightarrow>
     \<exists>ps. probes (snd (getImageMetadata c file (Some True) s)) =
            probes s @ MetadataProbe (absolutePath file) # ps"
  by (auto simp: getImageMetadata_def Let_def split: sum.splits)

lemma getImageMetadata_write:
  "metadataCache (snd (getImageMetadata c file g s)) k = Some m \<Longrightarrow>
     metadataCache s k = Some m \<or> md_dominantColor m \<noteq> None"
  by (auto simp: getImageMetadata_def Let_def split: sum.splits if_splits)

lemma example_getImageMetadata:
  "getImageMetadata example_collaborators example_file (Some True) example_state
     = (Inr example_metadata, example_cached_state)"
  by (simp add: ex model)

text \<open>
  C9. With the dominant colour asked for, when the record is computed (no usable cache
  entry) and both probes succeed, the resolved \<^verbatim>\<open>dominantColor\<close> is exactly
  \<^verbatim>\<open>#000000\<close> if the statistics carry no dominant colour, and otherwise the hex
  conversion \<^verbatim>\<open>rgbToHex\<close> of the dominant r, g and b.
\<close>

theorem getImageMetadata_dominantColor:
  assumes "metadataCache s (contentDigest file) = None \<or> NODE_ENV s = Some ''test''"
    and "sharp_metadata c (absolutePath file) = Inr sm"
    and "sharp_stats c (absolutePath file) = Inr st"
  shows "\<exists>m. fst (getImageMetadata c file (Some True) s) = Inr m
           \<and> md_dominantColor m =
               Some (case dominant st of
                       None \<Rightarrow> ''#000000''
                     | Some d \<Rightarrow> rgbToHex c (dom_r d) (dom_g d) (dom_b d))"
  using assms by (auto simp: getImageMetadata_def Let_def)

text \<open>
  Statistics without a dominant colour give \<^verbatim>\<open>#000000\<close>; the dominant colour
  (8, 128, 255) gives \<^verbatim>\<open>#0880ff\<close> under the example conversion.
\<close>

theorem getImageMetadata_dominantColor_witness:
  "(\<exists>m. fst (getImageMetadata
               (example_collaborators\<lparr>sharp_stats := (\<lambda>path. Inr \<lparr>dominant = None\<rparr>)\<rparr>)
               example_file (Some True) example_state) = Inr m
         \<and> md_dominantColor m = Some ''#000000'')
   \<and> (\<exists>m. fst (getImageMetadata example_collaborators example_file (Some True)
                     example_state) = Inr m
          \<and> md_dominantColor m = Some ''#0880ff'')"
  using getImageMetadata_dominantColor
          [of example_state example_file
              "example_collaborators\<lparr>sharp_stats := (\<lambda>path. Inr \<lparr>dominant = None\<rparr>)\<rparr>"
              "\<lparr>sm_width = Fin 600, sm_height = Fin 400, sm_density = None,
                sm_format = ''png''\<rparr>"
              "\<lparr>dominant = None\<rparr>"]
        getImageMetadata_dominantColor
          [of example_state example_file example_collaborators
              "\<lparr>sm_width = Fin 600, sm_height = Fin 400, sm_density = None,
                sm_format = ''png''\<rparr>"
              "\<lparr>dominant = Some \<lparr>dom_r = Fin 8, dom_g = Fin 128, dom_b = Fin 255\<rparr>\<rparr>"]
  by (simp add: ex)

lemma getImageMetadata_NODE_ENV:
  "NODE_ENV (snd (getImageMetadata c file g s)) = NODE_ENV s"
  by (simp add: getImageMetadata_def Let_def split: sum.splits)

lemma getImageMetadata_keeps:
  "metadataCache s k = Some m \<Longrightarrow> NODE_ENV s \<noteq> Some ''test'' \<Longrightarrow>
     metadataCache (snd (getImageMetadata c file g s)) k = Some m"
  by (auto simp: getImageMetadata_def Let_def split: sum.splits)

lemma generateImageData_state:
  "snd (generateImageData c file args s) =
     snd (getImageMetadata c file (Some (placeholder_of args = DominantColor)) s)"
  by (simp add: generateImageData_def Let_def split: prod.splits sum.splits option.splits)

lemma run_NODE_ENV: "NODE_ENV (run calls s) = NODE_ENV s"
proof (induction calls arbitrary: s)
  case Nil
  then show ?case by simp
next
  case (Cons a calls)
  then show ?case
    by (cases a) (simp_all add: getImageMetadata_NODE_ENV generateImageData_state)
qed

lemma run_keeps:
  "metadataCache s k = Some m \<Longrightarrow> NODE_ENV s \<noteq> Some ''test'' \<Longrightarrow>
     metadataCache (run calls s) k = Some m"
proof (induction calls arbitrary: s)
  case Nil
  then show ?case by simp
next
  case (Cons a calls)
  then show ?case
    by (cases a)
       (simp_all add: getImageMetadata_keeps getImageMetadata_NODE_ENV
          generateImageData_state)
qed

text \<open>
  C4. A call of getImageMetadata that asks for the dominant colour and returns a record
  leaves that record in the cache under the file's content digest. Outside test mode
  the entry stays through any later calls of the module, for this or for other digests,
  and a later resolution of the same digest, whatever the file's path and whatever the
  probes would now answer, returns the same record and leaves the state as it was: no
  probe is made. In test mode a later resolution probes the image again.
\<close>

theorem getImageMetadata_cache:
  assumes "getImageMetadata c file (Some True) s = (Inr m, s1)"
    and "contentDigest file' = contentDigest file"
  shows "metadataCache s1 (contentDigest file) = Some m
       \<and> (NODE_ENV s1 \<noteq> Some ''test'' \<longrightarrow>
            getImageMetadata c' file' (Some True) (run calls s1) = (Inr m, run calls s1))
       \<and> (NODE_ENV s1 = Some ''test'' \<longrightarrow>
            (\<exists>ps. probes (snd (getImageMetadata c' file' (Some True) (run calls s1))) =
                    probes (run calls s1) @ MetadataProbe (absolutePath file') # ps))"
proof -
  have stored: "metadataCache s1 (contentDigest file') = Some m"
    using assms by (simp add: getImageMetadata_stored)
  have later: "getImageMetadata c' file' (Some True) (run calls s1) = (Inr m, run calls s1)"
    if "NODE_ENV s1 \<noteq> Some ''test''"
    using that run_keeps [OF stored that, of calls]
    by (intro getImageMetadata_hit) (simp_all add: run_NODE_ENV)
  have again: "\<exists>ps. probes (snd (getImageMetadata c' file' (Some True) (run calls s1))) =
                    probes (run calls s1) @ MetadataProbe (absolutePath file') # ps"
    if "NODE_ENV s1 = Some ''test''"
    using that by (intro getImageMetadata_recompute) (simp add: run_NODE_ENV)
  show ?thesis
    using stored assms(2) later again by simp
qed

text \<open>
  Outside test mode: between the two resolutions another digest is resolved and cached,
  a descriptor is generated and a cheap call is made; the second resolution then meets
  collaborators whose probes throw and a file without a path, and still returns the
  cached record. In test mode the first resolution recomputes the record although it is
  cached, and the second one probes.
\<close>

theorem getImageMetadata_cache_witness:
  "getImageMetadata example_collaborators example_file (Some True) example_state
     = (Inr example_metadata, example_cached_state)
   \<and> metadataCache example_cached_state (contentDigest example_file) = Some example_metadata
   \<and> metadataCache
         (run [GetImageMetadata example_collaborators
                 (example_file\<lparr>contentDigest := ''digest-b''\<rparr>) (Some True),
               GenerateImageData example_collaborators example_file example_args,
               GetImageMetadata example_collaborators example_file None]
            example_cached_state) ''digest-b'' = Some example_metadata
   \<and> getImageMetadata failing_collaborators (example_file\<lparr>absolutePath := None\<rparr>)
         (Some True)
         (run [GetImageMetadata example_collaborators
                 (example_file\<lparr>contentDigest := ''digest-b''\<rparr>) (Some True),
               GenerateImageData example_collaborators example_file example_args,
               GetImageMetadata example_collaborators example_file None]
            example_cached_state)
     = (Inr example_metadata,
        run [GetImageMetadata example_collaborators
               (example_file\<lparr>contentDigest := ''digest-b''\<rparr>) (Some True),
             GenerateImageData example_collaborators example_file example_args,
             GetImageMetadata example_collaborators example_file None]
          example_cached_state)
   \<and> getImageMetadata example_collaborators example_file (Some True) example_test_state
     = (Inr example_metadata,
        example_test_state\<lparr>probes := probes example_test_state
           @ [MetadataProbe (Some ''/site/a.png''), StatsProbe (Some ''/site/a.png'')]\<rparr>)
   \<and> probes (snd (getImageMetadata failing_collaborators
                      (example_file\<lparr>absolutePath := None\<rparr>) (Some True)
                      (example_test_state\<lparr>probes := probes example_test_state
                         @ [MetadataProbe (Some ''/site/a.png''),
                            StatsProbe (Some ''/site/a.png'')]\<rparr>)))
     = probes example_test_state
         @ [MetadataProbe (Some ''/site/a.png''), StatsProbe (Some ''/site/a.png''),
            MetadataProbe None]"
proof -
  let ?calls = "[GetImageMetadata example_collaborators
                   (example_file\<lparr>contentDigest := ''digest-b''\<rparr>) (Some True),
                 GenerateImageData example_collaborators example_file example_args,
                 GetImageMetadata example_collaborators example_file None]"
  have same: "contentDigest (example_file\<lparr>absolutePath := None\<rparr>) = contentDigest example_file"
    by simp
  have first: "getImageMetadata example_collaborators example_file (Some True) example_state
     = (Inr example_metadata, example_cached_state)"
    by (simp add: ex model)
  have test: "getImageMetadata example_collaborators example_file (Some True) example_test_state
     = (Inr example_metadata,
        example_test_state\<lparr>probes := probes example_test_state
           @ [MetadataProbe (Some ''/site/a.png''), StatsProbe (Some ''/site/a.png'')]\<rparr>)"
    by (simp add: ex model fun_upd_idem)
  have other: "metadataCache (run ?calls example_cached_state) ''digest-b''
     = Some example_metadata"
    by (simp add: generateImageData_state) (simp add: ex model)
  have env: "NODE_ENV example_cached_state \<noteq> Some ''test''"
    by (simp add: example_cached_state_def)
  show ?thesis
    using first test other env
      getImageMetadata_cache [OF first same, of failing_collaborators ?calls]
      getImageMetadata_cache [OF test same, of failing_collaborators "[]"]
    by (simp add: ex model)
qed

section \<open>The cache invariant\<close>

lemma getImageMetadata_populated:
  "cache_populated s \<Longrightarrow> cache_populated (snd (getImageMetadata c file g s))"
  unfolding cache_populated_def using getImageMetadata_write by blast

lemma run_populated: "cache_populated s \<Longrightarrow> cache_populated (run calls s)"
proof (induction calls arbitrary: s)
  case Nil
  then show ?case by simp
next
  case (Cons a calls)
  then show ?case
    by (cases a) (simp_all add: getImageMetadata_populated generateImageData_state)
qed

text \<open>
  C10. Every record ever stored in the cache has its \<^verbatim>\<open>dominantColor\<close> set. A call
  of getImageMetadata that does not ask for the dominant colour (the flag false or
  absent) leaves the cache as it was, and what it returns does not depend on the cache.
  Whatever a call adds to the cache is a record with a dominant colour. Hence, starting
  from the empty cache, the cache holds only such records after any run of calls.
\<close>

theorem metadataCache_dominantColor:
  "(g \<noteq> Some True \<longrightarrow>
      metadataCache (snd (getImageMetadata c file g s)) = metadataCache s
      \<and> fst (getImageMetadata c file g (s\<lparr>metadataCache := mc\<rparr>)) =
          fst (getImageMetadata c file g s))
   \<and> (metadataCache (snd (getImageMetadata c file g s)) k = Some m \<longrightarrow>
        metadataCache s k = Some m \<or> md_dominantColor m \<noteq> None)
   \<and> (metadataCache s0 = Map.empty \<longrightarrow> cache_populated (run calls s0))"
proof -
  have "cache_populated s0" if "metadataCache s0 = Map.empty"
    using that by (simp add: cache_populated_def)
  then show ?thesis
    using getImageMetadata_write [of c "file" g s k m]
    by (auto simp: getImageMetadata_cheap run_populated split: sum.splits)
qed

text \<open>
  A cheap call on a filled cache, the one write of a first resolution, and a run of three
  calls from the empty cache.
\<close>

theorem metadataCache_dominantColor_witness:
  "metadataCache
     (snd (getImageMetadata example_collaborators example_file None example_cached_state))
     = metadataCache example_cached_state
   \<and> fst (getImageMetadata example_collaborators example_file None
            (example_cached_state\<lparr>metadataCache := Map.empty\<rparr>))
     = fst (getImageMetadata example_collaborators example_file None example_cached_state)
   \<and> metadataCache
        (snd (getImageMetadata example_collaborators example_file (Some True) example_state))
        ''digest-a'' = Some example_metadata
   \<and> metadataCache example_state ''digest-a'' \<noteq> Some example_metadata
   \<and> md_dominantColor example_metadata \<noteq> None
   \<and> metadataCache example_state = Map.empty
   \<and> cache_populated
        (run [GenerateImageData example_collaborators example_file example_args,
              GetImageMetadata example_collaborators example_file None,
              GetImageMetadata example_collaborators
                (example_file\<lparr>contentDigest := ''digest-b''\<rparr>) (Some True)]
           example_state)"
proof -
  have e: "metadataCache example_state = Map.empty"
    by (simp add: example_state_def)
  have n: "(None :: bool option) \<noteq> Some True"
    by simp
  have w: "metadataCache
        (snd (getImageMetadata example_collaborators example_file (Some True) example_state))
        ''digest-a'' = Some example_metadata"
    by (simp add: ex model)
  show ?thesis
    using e n w
      metadataCache_dominantColor
        [of None example_collaborators example_file example_cached_state Map.empty
            "''digest-a''" example_metadata example_state
            "[GenerateImageData example_collaborators example_file example_args,
              GetImageMetadata example_collaborators example_file None,
              GetImageMetadata example_collaborators
                (example_file\<lparr>contentDigest := ''digest-b''\<rparr>) (Some True)]"]
      metadataCache_dominantColor
        [of "Some True" example_collaborators example_file example_state Map.empty
            "''digest-a''" example_metadata example_state "[]"]
    by (simp add: example_metadata_def)
qed

section \<open>Properties of generateImageData\<close>

lemma generateImageData_SomeE:
  assumes "fst (generateImageData c file args s) = Inr (Some d)"
  obtains metadata imgs primary p1 p2 where
    "fst (getImageMetadata c file (Some (placeholder_of args = DominantColor)) s) = Inr metadata"
    and "images c file args metadata = Inr imgs" and "imgs \<noteq> []"
    and "primaryImage (imageSizes c file args metadata) imgs = Some primary"
    and "addWebpSource c file args (imageSizes c file args metadata)
           (string_or (arg_sizes args)
              (getSizes c (is_presentationWidth (imageSizes c file args metadata))))
           (initialImageProps (layout_of args) primary (getSrcSet c imgs)
              (string_or (arg_sizes args)
                 (getSizes c (is_presentationWidth (imageSizes c file args metadata))))) = Inr p1"
    and "addPlaceholder c file args (placeholder_of args) (tracedSVGOptions_of args)
           metadata p1 = Inr p2"
    and "d = setDimensions (layout_of args) args primary p2"
  using assms
  by (auto simp: generateImageData_def Let_def
           split: prod.splits sum.splits option.splits if_splits)

lemma addWebpSource_fields:
  "addWebpSource c file args imgSizes sizes p = Inr p1 \<Longrightarrow>
     out_placeholder p1 = out_placeholder p \<and> out_backgroundColor p1 = out_backgroundColor p"
  by (auto simp: addWebpSource_def Let_def split: if_splits sum.splits)

lemma setDimensions_fields:
  "out_placeholder (setDimensions layout args primary p) = out_placeholder p
   \<and> out_backgroundColor (setDimensions layout args primary p) = out_backgroundColor p"
  by (cases layout) (simp_all add: setDimensions_def Let_def)

lemma number_or_truthy: "truthy_number b \<Longrightarrow> truthy_number (number_or a b)"
  by (simp add: number_or_def split: option.splits)

lemma number_or_Some_truthy: "truthy_number n \<Longrightarrow> number_or (Some n) b = n"
  by (simp add: number_or_def)

lemma setDimensions_size:
  "out_width (setDimensions layout args primary p) =
     Some (case layout of
             Fixed \<Rightarrow> img_width primary
           | Fluid \<Rightarrow> Fin 1
           | Constrained \<Rightarrow>
               number_or (arg_maxWidth args) (number_or (Some (img_width primary)) (Fin 1)))
   \<and> out_height (setDimensions layout args primary p) =
     Some (case layout of
             Fixed \<Rightarrow> img_height primary
           | Fluid \<Rightarrow> js_div (Fin 1) (number_or (img_aspectRatio primary) (Fin 1))
           | Constrained \<Rightarrow>
               js_div (number_or (arg_maxWidth args)
                         (number_or (Some (img_width primary)) (Fin 1)))
                 (number_or (img_aspectRatio primary) (Fin 1)))"
proof -
  have "truthy_number (number_or (arg_maxWidth args)
          (number_or (Some (img_width primary)) (Fin 1)))"
    by (intro number_or_truthy) (simp add: truthy_number_def)
  then show ?thesis
    by (cases layout) (simp_all add: setDimensions_def Let_def number_or_Some_truthy)
qed

lemma findIndex_none: "\<forall>x\<in>set xs. \<not> p x \<Longrightarrow> findIndex p xs = - 1"
  by (induction xs) (simp_all add: Let_def)

lemma addPlaceholder_fields:
  assumes "addPlaceholder c file args pl opts metadata p = Inr p2"
    and "out_placeholder p = None" and "out_backgroundColor p = None"
  shows "(pl = Blurred \<or> pl = TracedSVG \<longrightarrow>
            out_placeholder p2 \<noteq> None \<and> out_backgroundColor p2 = None)
       \<and> (pl \<noteq> Blurred \<and> pl \<noteq> TracedSVG \<longrightarrow>
            out_placeholder p2 = None
            \<and> out_backgroundColor p2 =
                (if truthy_string (md_dominantColor metadata)
                 then md_dominantColor metadata else None))"
  using assms by (auto simp: addPlaceholder_def split: if_splits sum.splits)

lemma example_images_eq:
  "images example_collaborators example_file args example_metadata = Inr example_images"
  by (simp add: ex model)

lemma example_primaryImage:
  "primaryImage (imageSizes example_collaborators example_file args example_metadata)
     example_images = Some (hd example_images)"
  by (simp add: ex model)

lemma addWebpSource_fallback:
  "addWebpSource c file args imgSizes sizes p = Inr p1 \<Longrightarrow>
     fallback (out_images p1) = fallback (out_images p)"
  by (auto simp: addWebpSource_def Let_def split: if_splits sum.splits)

lemma addPlaceholder_images:
  "addPlaceholder c file args pl opts metadata p = Inr p2 \<Longrightarrow> out_images p2 = out_images p"
  by (auto simp: addPlaceholder_def split: if_splits sum.splits)

lemma setDimensions_images:
  "out_images (setDimensions layout args primary p) = out_images p"
  by (cases layout) (simp_all add: setDimensions_def Let_def)

text \<open>
  C2. The plan built by generateImageData has one entry per target width, in the same
  order: the transform made from the arguments whose width is \<^verbatim>\<open>Math.round(w)\<close> and
  whose height is \<^verbatim>\<open>Math.round(Math.round(w) / aspectRatio)\<close>, the height being
  derived from the rounded width and the quotient being the binary64 one. For the target
  widths 100.4 and 200.6 and the aspect ratio 2 the dimensions are 100 by 50 and 201 by
  101. This plan, for the sizes of the sizing collaborator, is what generateImageData
  hands to the resize collaborator: a failure of the resize on it is the failure of the
  call, and the fallback of a returned descriptor is built from the images encoded for it.
\<close>

theorem generateImageData_plan:
  assumes "getImageMetadata c file (Some (placeholder_of args = DominantColor)) s
             = (Inr metadata, s1)"
  shows "transforms c args imgSizes toFormat =
           map (createTransformObject c)
             (map (transformArgs args (is_aspectRatio imgSizes) toFormat) (is_sizes imgSizes))
       \<and> map (\<lambda>t. (arg_width t, arg_height t))
             (map (transformArgs args (is_aspectRatio imgSizes) toFormat) (is_sizes imgSizes)) =
           map (\<lambda>w. (Some (Math_round w),
                      Some (Math_round (js_div (Math_round w) (is_aspectRatio imgSizes)))))
             (is_sizes imgSizes)
       \<and> map (\<lambda>t. (arg_width t, arg_height t))
             (map (transformArgs args (Fin 2) toFormat) [binary64 100.4, binary64 200.6]) =
           [(Some (Fin 100), Some (Fin 50)), (Some (Fin 201), Some (Fin 101))]
       \<and> images c file args metadata =
           batchQueueImageResizing c file
             (transforms c args (imageSizes c file args metadata)
                (string_or (arg_toFormat args) (md_format metadata)))
       \<and> (batchQueueImageResizing c file
             (transforms c args (imageSizes c file args metadata)
                (string_or (arg_toFormat args) (md_format metadata))) = Inl e \<longrightarrow>
            generateImageData c file args s = (Inl e, s1))
       \<and> (fst (generateImageData c file args s) = Inr (Some d) \<longrightarrow>
            (\<exists>imgs primary.
                batchQueueImageResizing c file
                  (transforms c args (imageSizes c file args metadata)
                     (string_or (arg_toFormat args) (md_format metadata))) = Inr imgs
                \<and> primaryImage (imageSizes c file args metadata) imgs = Some primary
                \<and> fallback (out_images d) =
                    \<lparr>fb_src = img_src primary, fb_srcSet = getSrcSet c imgs,
                     fb_sizes = string_or (arg_sizes args)
                       (getSizes c
                          (is_presentationWidth (imageSizes c file args metadata)))\<rparr>))"
proof -
  have plan: "transforms c args imgSizes toFormat =
           map (createTransformObject c)
             (map (transformArgs args (is_aspectRatio imgSizes) toFormat) (is_sizes imgSizes))"
    by (simp add: transforms_def comp_def)
  have dims: "map (\<lambda>t. (arg_width t, arg_height t))
             (map (transformArgs args (is_aspectRatio imgSizes) toFormat) (is_sizes imgSizes)) =
           map (\<lambda>w. (Some (Math_round w),
                      Some (Math_round (js_div (Math_round w) (is_aspectRatio imgSizes)))))
             (is_sizes imgSizes)"
    by (simp add: transformArgs_def Let_def comp_def)
  have inst: "map (\<lambda>t. (arg_width t, arg_height t))
             (map (transformArgs args (Fin 2) toFormat) [binary64 100.4, binary64 200.6]) =
           [(Some (Fin 100), Some (Fin 50)), (Some (Fin 201), Some (Fin 101))]"
    by (simp add: transformArgs_def Let_def binary64_values)
  have fail: "generateImageData c file args s = (Inl e, s1)"
    if "images c file args metadata = Inl e"
    using that assms by (simp add: generateImageData_def Let_def)
  have built: "\<exists>imgs primary.
                images c file args metadata = Inr imgs
                \<and> primaryImage (imageSizes c file args metadata) imgs = Some primary
                \<and> fallback (out_images d) =
                    \<lparr>fb_src = img_src primary, fb_srcSet = getSrcSet c imgs,
                     fb_sizes = string_or (arg_sizes args)
                       (getSizes c
                          (is_presentationWidth (imageSizes c file args metadata)))\<rparr>"
    if "fst (generateImageData c file args s) = Inr (Some d)"
  proof -
    from that obtain metadata' imgs primary p1 p2 where
      m: "fst (getImageMetadata c file (Some (placeholder_of args = DominantColor)) s)
            = Inr metadata'"
      and i: "images c file args metadata' = Inr imgs"
      and p: "primaryImage (imageSizes c file args metadata') imgs = Some primary"
      and w: "addWebpSource c file args (imageSizes c file args metadata')
           (string_or (arg_sizes args)
              (getSizes c (is_presentationWidth (imageSizes c file args metadata'))))
           (initialImageProps (layout_of args) primary (getSrcSet c imgs)
              (string_or (arg_sizes args)
                 (getSizes c (is_presentationWidth (imageSizes c file args metadata')))))
           = Inr p1"
      and a: "addPlaceholder c file args (placeholder_of args) (tracedSVGOptions_of args)
           metadata' p1 = Inr p2"
      and d: "d = setDimensions (layout_of args) args primary p2"
      by (rule generateImageData_SomeE)
    from m assms have same: "metadata' = metadata" by simp
    have "fallback (out_images d) = fallback (out_images p1)"
      unfolding d by (simp add: setDimensions_images addPlaceholder_images [OF a])
    also have "\<dots> =
        \<lparr>fb_src = img_src primary, fb_srcSet = getSrcSet c imgs,
         fb_sizes = string_or (arg_sizes args)
           (getSizes c (is_presentationWidth (imageSizes c file args metadata')))\<rparr>"
      by (simp add: addWebpSource_fallback [OF w] initialImageProps_def)
    finally show ?thesis
      using i p same by auto
  qed
  show ?thesis
    using plan dims inst fail built by (simp add: images_def)
qed

text \<open>
  The width 100 with the binary64 value of 1.6 as aspect ratio gives the height 63, the
  quotient being 62.5 in binary64. On the example image the two planned transforms are
  encoded and the fallback is built from the result; with a resize that throws, the
  call throws.
\<close>

theorem generateImageData_plan_witness:
  "map (\<lambda>t. (arg_width t, arg_height t))
     (map (transformArgs example_args (binary64 1.6) ''png'') [Fin 100])
     = [(Some (Fin 100), Some (Fin 63))]
   \<and> images example_collaborators example_file example_args example_metadata
     = Inr example_images
   \<and> fst (generateImageData example_collaborators example_file example_args example_state)
     = Inr (Some (example_descriptor Fixed None (Some ''#0880ff'') (Fin 300) (Fin 200)))
   \<and> fallback (out_images
         (example_descriptor Fixed None (Some ''#0880ff'') (Fin 300) (Fin 200)))
     = \<lparr>fb_src = img_src (hd example_images),
        fb_srcSet = getSrcSet example_collaborators example_images, fb_sizes = ''100vw''\<rparr>
   \<and> batchQueueImageResizing unresizable_collaborators example_file
         (transforms unresizable_collaborators example_args
            (imageSizes unresizable_collaborators example_file example_args example_metadata)
            (string_or (arg_toFormat example_args) (md_format example_metadata)))
     = Inl ResizeError
   \<and> generateImageData unresizable_collaborators example_file example_args example_state
     = (Inl ResizeError, example_cached_state)"
proof -
  have m: "getImageMetadata example_collaborators example_file
             (Some (placeholder_of example_args = DominantColor)) example_state
           = (Inr example_metadata, example_cached_state)"
    by (simp add: ex model)
  have m': "getImageMetadata unresizable_collaborators example_file
             (Some (placeholder_of example_args = DominantColor)) example_state
           = (Inr example_metadata, example_cached_state)"
    by (simp add: ex model)
  have d: "fst (generateImageData example_collaborators example_file example_args
                  example_state)
     = Inr (Some (example_descriptor Fixed None (Some ''#0880ff'') (Fin 300) (Fin 200)))"
    by (simp add: ex model)
  have e: "batchQueueImageResizing unresizable_collaborators example_file
         (transforms unresizable_collaborators example_args
            (imageSizes unresizable_collaborators example_file example_args example_metadata)
            (string_or (arg_toFormat example_args) (md_format example_metadata)))
     = Inl ResizeError"
    by (simp add: unresizable_collaborators_def)
  show ?thesis
    using d e
      generateImageData_plan
        [OF m,
         of "\<lparr>is_sizes = [Fin 100], is_presentationWidth = Fin 100,
              is_presentationHeight = Fin 63, is_aspectRatio = binary64 1.6\<rparr>"
            "''png''" ResizeError
            "example_descriptor Fixed None (Some ''#0880ff'') (Fin 300) (Fin 200)"]
      generateImageData_plan
        [OF m',
         of "\<lparr>is_sizes = [Fin 100], is_presentationWidth = Fin 100,
              is_presentationHeight = Fin 63, is_aspectRatio = binary64 1.6\<rparr>"
            "''png''" ResizeError
            "example_descriptor Fixed None (Some ''#0880ff'') (Fin 300) (Fin 200)"]
    by (simp add: ex model)
qed

text \<open>
  C8. When metadata resolution succeeds and the resize collaborator returns the empty
  list, generateImageData returns \<^verbatim>\<open>undefined\<close>, whatever the layout and the other
  arguments are.
\<close>

theorem generateImageData_empty:
  assumes "getImageMetadata c file (Some (placeholder_of args = DominantColor)) s
             = (Inr metadata, s1)"
    and "images c file args metadata = Inr []"
  shows "generateImageData c file args s = (Inr None, s1)"
  using assms by (simp add: generateImageData_def Let_def)

text \<open>A fluid layout, with a resize collaborator that encodes nothing.\<close>

theorem generateImageData_empty_witness:
  "getImageMetadata failing_collaborators example_file
       (Some (placeholder_of (example_args\<lparr>arg_layout := Some Fluid\<rparr>) = DominantColor))
       example_cached_state = (Inr example_metadata, example_cached_state)
   \<and> images failing_collaborators example_file (example_args\<lparr>arg_layout := Some Fluid\<rparr>)
         example_metadata = Inr []
   \<and> generateImageData failing_collaborators example_file
         (example_args\<lparr>arg_layout := Some Fluid\<rparr>) example_cached_state
        = (Inr None, example_cached_state)"
proof -
  have h1: "getImageMetadata failing_collaborators example_file
       (Some (placeholder_of (example_args\<lparr>arg_layout := Some Fluid\<rparr>) = DominantColor))
       example_cached_state = (Inr example_metadata, example_cached_state)"
    by (simp add: ex model)
  have h2: "images failing_collaborators example_file
         (example_args\<lparr>arg_layout := Some Fluid\<rparr>) example_metadata = Inr []"
    by (simp add: ex model)
  show ?thesis
    using h1 h2 generateImageData_empty [OF h1 h2] by simp
qed

text \<open>
  The claim that a call without an exact width match still returns a descriptor fails:
  with the planned widths 300 and 600, the presentation width 450 and two encoded images,
  reading \<^verbatim>\<open>primaryImage.src\<close> on line 167 throws.
\<close>

theorem generateImageData_no_primary_counterexample:
  "getImageMetadata mismatched_collaborators example_file
       (Some (placeholder_of example_args = DominantColor)) example_state
     = (Inr example_metadata, example_cached_state)
   \<and> is_sizes (imageSizes mismatched_collaborators example_file example_args example_metadata)
     = [Fin 300, Fin 600]
   \<and> is_presentationWidth
         (imageSizes mismatched_collaborators example_file example_args example_metadata)
     = Fin 450
   \<and> images mismatched_collaborators example_file example_args example_metadata
     = Inr example_images
   \<and> example_images \<noteq> []
   \<and> generateImageData mismatched_collaborators example_file example_args example_state
     = (Inl TypeError, example_cached_state)"
  by (simp add: ex model)

text \<open>
  C1, as amended. When metadata resolution and the resize succeed, the encoded-image list
  is not empty and no entry of the target-width list strictly equals the presentation
  width, the primary image is \<^verbatim>\<open>undefined\<close> and the call fails with a TypeError
  on reading \<^verbatim>\<open>primaryImage.src\<close>: no descriptor is returned.
\<close>

theorem generateImageData_no_primary:
  assumes "getImageMetadata c file (Some (placeholder_of args = DominantColor)) s
             = (Inr metadata, s1)"
    and "images c file args metadata = Inr imgs" and "imgs \<noteq> []"
    and "\<forall>size\<in>set (is_sizes (imageSizes c file args metadata)).
           \<not> strict_eq size (is_presentationWidth (imageSizes c file args metadata))"
  shows "generateImageData c file args s = (Inl TypeError, s1)"
proof -
  have "primaryImage (imageSizes c file args metadata) imgs = None"
    using findIndex_none [OF assms(4)] by (simp add: primaryImage_def js_index_def)
  then show ?thesis
    using assms(1-3) by (simp add: generateImageData_def Let_def)
qed

text \<open>The same mismatch, under the placeholder strategy \<^verbatim>\<open>none\<close>.\<close>

theorem generateImageData_no_primary_witness:
  "images mismatched_collaborators example_file
       (example_args\<lparr>arg_placeholder := Some NoPlaceholder\<rparr>) example_size_metadata
     = Inr example_images
   \<and> example_images \<noteq> []
   \<and> generateImageData mismatched_collaborators example_file
         (example_args\<lparr>arg_placeholder := Some NoPlaceholder\<rparr>) example_state
     = (Inl TypeError, example_state\<lparr>probes := [SizeProbe example_file]\<rparr>)"
proof -
  let ?args = "example_args\<lparr>arg_placeholder := Some NoPlaceholder\<rparr>"
  have h1: "getImageMetadata mismatched_collaborators example_file
              (Some (placeholder_of ?args = DominantColor)) example_state
            = (Inr example_size_metadata, example_state\<lparr>probes := [SizeProbe example_file]\<rparr>)"
    by (simp add: ex model)
  have h2: "images mismatched_collaborators example_file ?args example_size_metadata
            = Inr example_images"
    by (simp add: ex model)
  have h3: "example_images \<noteq> []"
    by (simp add: example_images_def)
  have h4: "\<forall>size\<in>set (is_sizes (imageSizes mismatched_collaborators example_file ?args
                                   example_size_metadata)).
              \<not> strict_eq size (is_presentationWidth
                    (imageSizes mismatched_collaborators example_file ?args
                       example_size_metadata))"
    by (simp add: ex model)
  show ?thesis
    using h2 h3 generateImageData_no_primary [OF h1 h2 h3 h4] by simp
qed

text \<open>
  C3. In a returned descriptor the dimensions follow the layout. Fixed: the width and
  height of the primary encoded image. Fluid: width 1 and height 1 / aspectRatio.
  Constrained: the width is maxWidth if truthy, else the primary width if truthy, else 1,
  and the height is that width / aspectRatio; so maxWidth 300 with the primary aspect
  ratio 1.5 gives 300 by 200. Here aspectRatio is that of the primary image, 1 standing
  in when it is missing or falsy (line 225).
\<close>

theorem generateImageData_dimensions:
  assumes "getImageMetadata c file (Some (placeholder_of args = DominantColor)) s
             = (Inr metadata, s1)"
    and "images c file args metadata = Inr imgs"
    and "primaryImage (imageSizes c file args metadata) imgs = Some primary"
    and "fst (generateImageData c file args s) = Inr (Some d)"
  shows "(layout_of args = Fixed \<longrightarrow>
            out_width d = Some (img_width primary) \<and> out_height d = Some (img_height primary))
       \<and> (layout_of args = Fluid \<longrightarrow>
            out_width d = Some (Fin 1)
            \<and> out_height d = Some (js_div (Fin 1) (number_or (img_aspectRatio primary) (Fin 1))))
       \<and> (layout_of args = Constrained \<longrightarrow>
            out_width d = Some (number_or (arg_maxWidth args)
                                  (number_or (Some (img_width primary)) (Fin 1)))
            \<and> out_height d = Some (js_div (the (out_width d))
                                      (number_or (img_aspectRatio primary) (Fin 1))))
       \<and> (layout_of args = Constrained \<and> arg_maxWidth args = Some (Fin 300)
            \<and> img_aspectRatio primary = Some (Fin 1.5) \<longrightarrow>
            out_width d = Some (Fin 300) \<and> out_height d = Some (Fin 200))"
proof -
  from assms(4) obtain metadata' imgs' primary' p1 p2 where
    m: "fst (getImageMetadata c file (Some (placeholder_of args = DominantColor)) s)
          = Inr metadata'"
    and i: "images c file args metadata' = Inr imgs'"
    and p: "primaryImage (imageSizes c file args metadata') imgs' = Some primary'"
    and d: "d = setDimensions (layout_of args) args primary' p2"
    by (rule generateImageData_SomeE)
  from m assms(1) have "metadata' = metadata" by simp
  with i assms(2) have "imgs' = imgs" by simp
  with p assms(3) \<open>metadata' = metadata\<close> have "primary' = primary" by simp
  with d have d': "d = setDimensions (layout_of args) args primary p2" by simp
  show ?thesis
    unfolding d' using setDimensions_size [of "layout_of args" args primary p2]
    by (auto simp: number_or_def truthy_number_def binary64_200)
qed

text \<open>
  The constrained layout with maxWidth 300, the fixed layout and the fluid layout, on the
  example image whose primary variant is 300 by 200. The fluid height is the binary64
  value nearest to 2/3.
\<close>

theorem generateImageData_dimensions_witness:
  "fst (generateImageData example_collaborators example_file
          (example_args\<lparr>arg_layout := Some Constrained, arg_maxWidth := Some (Fin 300)\<rparr>)
          example_state)
     = Inr (Some (example_descriptor Constrained None (Some ''#0880ff'') (Fin 300) (Fin 200)))
   \<and> img_aspectRatio (hd example_images) = Some (Fin 1.5)
   \<and> fst (generateImageData example_collaborators example_file
          (example_args\<lparr>arg_layout := Some Fixed\<rparr>) example_state)
     = Inr (Some (example_descriptor Fixed None (Some ''#0880ff'')
                    (img_width (hd example_images)) (img_height (hd example_images))))
   \<and> fst (generateImageData example_collaborators example_file
          (example_args\<lparr>arg_layout := Some Fluid\<rparr>) example_state)
     = Inr (Some (example_descriptor Fluid None (Some ''#0880ff'') (Fin 1)
                    (Fin (6004799503160661 / 9007199254740992))))"
proof -
  let ?c = "example_args\<lparr>arg_layout := Some Constrained, arg_maxWidth := Some (Fin 300)\<rparr>"
  let ?x = "example_args\<lparr>arg_layout := Some Fixed\<rparr>"
  let ?l = "example_args\<lparr>arg_layout := Some Fluid\<rparr>"
  have m: "getImageMetadata example_collaborators example_file
             (Some (placeholder_of args = DominantColor)) example_state
           = (Inr example_metadata, example_cached_state)"
    if "arg_placeholder args = None" for args
    using that example_getImageMetadata by (simp add: placeholder_of_def)
  have dc: "fst (generateImageData example_collaborators example_file ?c example_state)
      = Inr (Some (example_descriptor Constrained None (Some ''#0880ff'') (Fin 300) (Fin 200)))"
    by (simp add: ex model)
  have dx: "fst (generateImageData example_collaborators example_file ?x example_state)
      = Inr (Some (example_descriptor Fixed None (Some ''#0880ff'') (Fin 300) (Fin 200)))"
    by (simp add: ex model)
  have dl: "fst (generateImageData example_collaborators example_file ?l example_state)
      = Inr (Some (example_descriptor Fluid None (Some ''#0880ff'') (Fin 1)
                    (Fin (6004799503160661 / 9007199254740992))))"
    by (simp add: ex model)
  have a: "arg_placeholder ?c = None" "arg_placeholder ?x = None" "arg_placeholder ?l = None"
    by (simp_all add: example_args_def)
  show ?thesis
    using generateImageData_dimensions
            [OF m [OF a(1)] example_images_eq example_primaryImage dc]
          generateImageData_dimensions
            [OF m [OF a(2)] example_images_eq example_primaryImage dx]
          generateImageData_dimensions
            [OF m [OF a(3)] example_images_eq example_primaryImage dl]
          dc dx dl
    by (simp add: example_images_def)
qed

text \<open>
  C5. In a returned descriptor at most one of \<^verbatim>\<open>backgroundColor\<close> and
  \<^verbatim>\<open>placeholder\<close> is set. The strategies \<^verbatim>\<open>blurred\<close> and \<^verbatim>\<open>tracedSVG\<close>
  set the placeholder payload and no background colour; \<^verbatim>\<open>dominantColor\<close> sets no
  payload, and the background colour is the resolved dominant colour when that is a
  non-empty string; \<^verbatim>\<open>none\<close> sets neither.
\<close>

theorem generateImageData_placeholder:
  assumes "fst (generateImageData c file args s) = Inr (Some d)"
  shows "(out_backgroundColor d = None \<or> out_placeholder d = None)
       \<and> (placeholder_of args = Blurred \<or> placeholder_of args = TracedSVG \<longrightarrow>
            out_placeholder d \<noteq> None \<and> out_backgroundColor d = None)
       \<and> (placeholder_of args = DominantColor \<longrightarrow>
            out_placeholder d = None
            \<and> (\<exists>metadata. fst (getImageMetadata c file (Some True) s) = Inr metadata
                  \<and> out_backgroundColor d =
                      (if truthy_string (md_dominantColor metadata)
                       then md_dominantColor metadata else None)))
       \<and> (placeholder_of args = NoPlaceholder \<longrightarrow>
            out_placeholder d = None \<and> out_backgroundColor d = None)"
proof -
  from assms obtain metadata imgs primary p1 p2 where
    m: "fst (getImageMetadata c file (Some (placeholder_of args = DominantColor)) s)
          = Inr metadata"
    and w: "addWebpSource c file args (imageSizes c file args metadata)
           (string_or (arg_sizes args)
              (getSizes c (is_presentationWidth (imageSizes c file args metadata))))
           (initialImageProps (layout_of args) primary (getSrcSet c imgs)
              (string_or (arg_sizes args)
                 (getSizes c (is_presentationWidth (imageSizes c file args metadata))))) = Inr p1"
    and a: "addPlaceholder c file args (placeholder_of args) (tracedSVGOptions_of args)
           metadata p1 = Inr p2"
    and d: "d = setDimensions (layout_of args) args primary p2"
    by (rule generateImageData_SomeE)
  have p1: "out_placeholder p1 = None" "out_backgroundColor p1 = None"
    using addWebpSource_fields [OF w] by (simp_all add: initialImageProps_def)
  note pf = addPlaceholder_fields [OF a p1]
  have cheap: "md_dominantColor metadata = None" if "placeholder_of args \<noteq> DominantColor"
    using m that by (auto simp: getImageMetadata_cheap split: sum.splits)
  have fields: "out_placeholder d = out_placeholder p2"
    "out_backgroundColor d = out_backgroundColor p2"
    unfolding d by (simp_all add: setDimensions_fields)
  show ?thesis
  proof (cases "placeholder_of args")
    case TracedSVG
    then show ?thesis using pf fields by simp
  next
    case DominantColor
    then show ?thesis using pf fields m by auto
  next
    case Blurred
    then show ?thesis using pf fields by simp
  next
    case NoPlaceholder
    then show ?thesis using pf fields cheap by (simp add: truthy_string_def)
  qed
qed

text \<open>The four strategies on the example image.\<close>

theorem generateImageData_placeholder_witness:
  "fst (generateImageData example_collaborators example_file
          (example_args\<lparr>arg_placeholder := Some Blurred\<rparr>) example_state)
     = Inr (Some (example_descriptor Fixed
                    (Some \<lparr>pl_fallback = ''data:image/png;base64,AAAA''\<rparr>) None
                    (Fin 300) (Fin 200)))
   \<and> fst (generateImageData example_collaborators example_file
          (example_args\<lparr>arg_placeholder := Some TracedSVG\<rparr>) example_state)
     = Inr (Some (example_descriptor Fixed
                    (Some \<lparr>pl_fallback = ''data:image/svg+xml,svg''\<rparr>) None
                    (Fin 300) (Fin 200)))
   \<and> fst (generateImageData example_collaborators example_file
          (example_args\<lparr>arg_placeholder := Some DominantColor\<rparr>) example_state)
     = Inr (Some (example_descriptor Fixed None (Some ''#0880ff'') (Fin 300) (Fin 200)))
   \<and> fst (generateImageData example_collaborators example_file
          (example_args\<lparr>arg_placeholder := Some NoPlaceholder\<rparr>) example_state)
     = Inr (Some (example_descriptor Fixed None None (Fin 300) (Fin 200)))"
proof -
  have b: "fst (generateImageData example_collaborators example_file
          (example_args\<lparr>arg_placeholder := Some Blurred\<rparr>) example_state)
     = Inr (Some (example_descriptor Fixed
                    (Some \<lparr>pl_fallback = ''data:image/png;base64,AAAA''\<rparr>) None
                    (Fin 300) (Fin 200)))"
    by (simp add: ex model)
  have t: "fst (generateImageData example_collaborators example_file
          (example_args\<lparr>arg_placeholder := Some TracedSVG\<rparr>) example_state)
     = Inr (Some (example_descriptor Fixed
                    (Some \<lparr>pl_fallback = ''data:image/svg+xml,svg''\<rparr>) None
                    (Fin 300) (Fin 200)))"
    by (simp add: ex model)
  have d: "fst (generateImageData example_collaborators example_file
          (example_args\<lparr>arg_placeholder := Some DominantColor\<rparr>) example_state)
     = Inr (Some (example_descriptor Fixed None (Some ''#0880ff'') (Fin 300) (Fin 200)))"
    by (simp add: ex model)
  have n: "fst (generateImageData example_collaborators example_file
          (example_args\<lparr>arg_placeholder := Some NoPlaceholder\<rparr>) example_state)
     = Inr (Some (example_descriptor Fixed None None (Fin 300) (Fin 200)))"
    by (simp add: ex model)
  show ?thesis
    using generateImageData_placeholder [OF b] generateImageData_placeholder [OF t]
      generateImageData_placeholder [OF d] generateImageData_placeholder [OF n] b t d n
    by simp
qed

end
